theory Spec2Isabelle
  imports Complex_Main
begin

section \<open>Values thrown and logged\<close>

text \<open>
  The component of \<^verbatim>\<open>FaceMeshView\<close> handles values of unknown shape: what the webcam
  reports (\<^verbatim>\<open>string | DOMException\<close>) and what a \<^verbatim>\<open>catch\<close> receives (\<^verbatim>\<open>any\<close>).
  One datatype covers the shapes the code tells apart: a \<^verbatim>\<open>DOMException\<close> with its name
  and its message, a plain string, an \<^verbatim>\<open>Error\<close> object with its message, any other
  object (one that has no \<^verbatim>\<open>message\<close> property), and the two values that have no
  properties at all, \<^verbatim>\<open>undefined\<close> and \<^verbatim>\<open>null\<close>. Messages are strings, as \<^verbatim>\<open>Error\<close> and
  \<^verbatim>\<open>DOMException\<close> define them.
\<close>

datatype js_value =
    DOMException string string
  | JsString string
  | JsError string
  | JsOther
  | JsUndefined
  | JsNull

text \<open>
  \<^verbatim>\<open>error.message\<close>. Reading a property of \<^verbatim>\<open>undefined\<close> or \<^verbatim>\<open>null\<close> throws a
  TypeError (\<open>Inl\<close>); a property that is not there reads as \<^verbatim>\<open>undefined\<close> (\<open>Inr None\<close>).
\<close>

fun message :: "js_value \<Rightarrow> js_value + string option" where
  "message (DOMException n m) = Inr (Some m)"
| "message (JsString str) = Inr None"
| "message (JsError m) = Inr (Some m)"
| "message JsOther = Inr None"
| "message JsUndefined = Inl (JsError ''Cannot read properties of undefined (reading message)'')"
| "message JsNull = Inl (JsError ''Cannot read properties of null (reading message)'')"

text \<open>
  \<^verbatim>\<open>error.message || dflt\<close>: the empty string and \<^verbatim>\<open>undefined\<close> are falsy; the
  TypeError of the property read passes through.
\<close>

definition message_or :: "js_value \<Rightarrow> string \<Rightarrow> js_value + string" where
  "message_or e dflt =
     (case message e of
        Inl t \<Rightarrow> Inl t
      | Inr None \<Rightarrow> Inr dflt
      | Inr (Some m) \<Rightarrow> if m = [] then Inr dflt else Inr m)"

datatype completion = Normal | Throw js_value

text \<open>Statement sequencing: what follows a throwing statement is skipped.\<close>

definition and_then ::
  "completion \<times> 'a \<Rightarrow> ('a \<Rightarrow> completion \<times> 'a) \<Rightarrow> completion \<times> 'a" where
  "and_then r f =
     (case r of
        (Normal, s) \<Rightarrow> f s
      | (Throw e, s) \<Rightarrow> (Throw e, s))"

section \<open>The canvas and its 2D context\<close>

text \<open>
  A landmark is a point \<open>(x, y, z)\<close> in normalised image space; the component never looks
  inside one. The connector tables (\<^verbatim>\<open>window.FACEMESH_TESSELATION\<close> and the others) are
  named, not expanded.
\<close>

type_synonym landmarks = "(rat \<times> rat \<times> rat) list"

datatype connections =
    FACEMESH_TESSELATION
  | FACEMESH_RIGHT_EYE
  | FACEMESH_LEFT_EYE
  | FACEMESH_RIGHT_EYEBROW
  | FACEMESH_LEFT_EYEBROW
  | FACEMESH_FACE_OVAL
  | FACEMESH_LIPS

record draw_style =
  color :: string
  lineWidth :: rat
  radius :: "rat option"

text \<open>
  Every call made on the context is recorded, oldest first: the four context methods the
  component uses, \<^verbatim>\<open>clearRect\<close>, and the calls of the two drawing helpers that returned.
\<close>

datatype canvas_call =
    Save
  | Restore
  | Scale rat rat
  | Translate rat rat
  | ClearRect rat rat rat rat
  | DrawConnectors landmarks connections draw_style
  | DrawLandmarks landmarks draw_style

text \<open>
  The context keeps a current transformation matrix \<open>(a, b, c, d, e, f)\<close>, a stack of saved
  matrices, and the record of calls. \<^verbatim>\<open>save\<close> pushes, \<^verbatim>\<open>restore\<close> pops (and leaves the
  matrix alone on an empty stack), \<^verbatim>\<open>scale\<close> and \<^verbatim>\<open>translate\<close> multiply the current matrix
  from the right, as the canvas API defines them.
\<close>

type_synonym matrix = "rat \<times> rat \<times> rat \<times> rat \<times> rat \<times> rat"

record context2d =
  transform :: matrix
  saved :: "matrix list"
  calls :: "canvas_call list"

definition ctx_record :: "canvas_call \<Rightarrow> context2d \<Rightarrow> context2d" where
  "ctx_record c ctx = ctx\<lparr>calls := calls ctx @ [c]\<rparr>"

definition ctx_save :: "context2d \<Rightarrow> context2d" where
  "ctx_save ctx = ctx_record Save (ctx\<lparr>saved := transform ctx # saved ctx\<rparr>)"

definition ctx_restore :: "context2d \<Rightarrow> context2d" where
  "ctx_restore ctx =
     ctx_record Restore
       (case saved ctx of
          [] \<Rightarrow> ctx
        | m # ms \<Rightarrow> ctx\<lparr>transform := m, saved := ms\<rparr>)"

definition ctx_scale :: "rat \<Rightarrow> rat \<Rightarrow> context2d \<Rightarrow> context2d" where
  "ctx_scale sx sy ctx =
     ctx_record (Scale sx sy)
       (case transform ctx of
          (a, b, c, d, e, f) \<Rightarrow> ctx\<lparr>transform := (a * sx, b * sx, c * sy, d * sy, e, f)\<rparr>)"

definition ctx_translate :: "rat \<Rightarrow> rat \<Rightarrow> context2d \<Rightarrow> context2d" where
  "ctx_translate tx ty ctx =
     ctx_record (Translate tx ty)
       (case transform ctx of
          (a, b, c, d, e, f) \<Rightarrow>
            ctx\<lparr>transform := (a, b, c, d, a * tx + c * ty + e, b * tx + d * ty + f)\<rparr>)"

definition ctx_clearRect :: "rat \<Rightarrow> rat \<Rightarrow> rat \<Rightarrow> rat \<Rightarrow> context2d \<Rightarrow> context2d" where
  "ctx_clearRect x y w h ctx = ctx_record (ClearRect x y w h) ctx"

text \<open>
  \<open>getContext2d\<close> is what \<^verbatim>\<open>canvas.getContext('2d')\<close> returns: the canvas's one context,
  or \<open>None\<close> for \<^verbatim>\<open>null\<close>.
\<close>

record canvas =
  width :: nat
  height :: nat
  getContext2d :: "context2d option"

section \<open>The external library\<close>

text \<open>
  \<^verbatim>\<open>window.FaceMesh\<close> and \<^verbatim>\<open>window.Camera\<close> are constructors of the external library. An
  instance is described by what each of its methods does when the component calls it:
  \<open>None\<close> when the call returns, \<open>Some e\<close> when it throws \<open>e\<close>. The promise returned by
  \<^verbatim>\<open>camera.start()\<close> settles later, see \<open>cameraStartSettled\<close>.
\<close>

record faceMesh =
  fm_setOptions :: "js_value option"
  fm_onResults :: "js_value option"
  fm_send :: "js_value option"
  fm_close :: "js_value option"

record camera =
  cam_start :: "js_value option"
  cam_stop :: "js_value option"

text \<open>
  The globals the scripts install. \<open>None\<close> is \<^verbatim>\<open>undefined\<close>. A constructor that is defined
  either throws or returns an instance. A drawing helper that is defined either returns
  (\<open>None\<close>) or throws (\<open>Some e\<close>), depending on the arguments it is given.
\<close>

record window =
  FaceMesh :: "(js_value + faceMesh) option"
  Camera :: "(js_value + camera) option"
  drawConnectors :: "(landmarks \<Rightarrow> connections \<Rightarrow> draw_style \<Rightarrow> js_value option) option"
  drawLandmarks :: "(landmarks \<Rightarrow> draw_style \<Rightarrow> js_value option) option"

text \<open>\<^verbatim>\<open>new window.X(...)\<close>; calling \<^verbatim>\<open>undefined\<close> as a constructor is a TypeError.\<close>

definition js_new :: "string \<Rightarrow> (js_value + 'a) option \<Rightarrow> js_value + 'a" where
  "js_new name ctor =
     (case ctor of
        None \<Rightarrow> Inl (JsError (name @ '' is not a constructor''))
      | Some r \<Rightarrow> r)"

text \<open>
  \<^verbatim>\<open>window.drawConnectors(ctx, landmarks, connections, style)\<close> and
  \<^verbatim>\<open>window.drawLandmarks(ctx, landmarks, style)\<close>. Calling \<^verbatim>\<open>undefined\<close> is a TypeError; a
  helper that throws has its exception passed on; a helper that returns has its call recorded
  on the context.
\<close>

definition call_drawConnectors ::
  "window \<Rightarrow> landmarks \<Rightarrow> connections \<Rightarrow> draw_style \<Rightarrow> context2d \<Rightarrow> completion \<times> context2d" where
  "call_drawConnectors w lms conns style ctx =
     (case drawConnectors w of
        None \<Rightarrow> (Throw (JsError ''window.drawConnectors is not a function''), ctx)
      | Some helper \<Rightarrow>
          (case helper lms conns style of
             None \<Rightarrow> (Normal, ctx_record (DrawConnectors lms conns style) ctx)
           | Some e \<Rightarrow> (Throw e, ctx)))"

definition call_drawLandmarks ::
  "window \<Rightarrow> landmarks \<Rightarrow> draw_style \<Rightarrow> context2d \<Rightarrow> completion \<times> context2d" where
  "call_drawLandmarks w lms style ctx =
     (case drawLandmarks w of
        None \<Rightarrow> (Throw (JsError ''window.drawLandmarks is not a function''), ctx)
      | Some helper \<Rightarrow>
          (case helper lms style of
             None \<Rightarrow> (Normal, ctx_record (DrawLandmarks lms style) ctx)
           | Some e \<Rightarrow> (Throw e, ctx)))"

section \<open>Component state\<close>

type_synonym video_element = nat

record webcam =
  video :: "video_element option"

datatype event =
    ConsoleLog string
  | ConsoleError string js_value
  | NewFaceMesh
  | SetOptions nat bool rat rat
  | RegisterOnResults
  | NewCamera video_element nat nat
  | CameraStart
  | CameraStop
  | FaceMeshClose
  | FaceMeshSend video_element
  | AppendScript string

text \<open>
  The six \<^verbatim>\<open>useState\<close> cells and the four \<^verbatim>\<open>useRef\<close> cells of the component, and the
  trace of what it has logged and which calls it has made into the external library, oldest
  first. A handler is given the state of the render that created it.
\<close>

record view_state =
  showPermissionRequest :: bool
  isLoading :: bool
  cameraReady :: bool
  lastError :: "string option"
  isRunning :: bool
  cdnAvailable :: bool
  webcamRef :: "webcam option"
  canvasRef :: "canvas option"
  faceMeshRef :: "faceMesh option"
  cameraRef :: "camera option"
  trace :: "event list"

definition emit :: "event \<Rightarrow> view_state \<Rightarrow> view_state" where
  "emit ev s = s\<lparr>trace := trace s @ [ev]\<rparr>"

text \<open>The state of the first render: the initial values given to \<^verbatim>\<open>useState\<close> and \<^verbatim>\<open>useRef\<close>.\<close>

definition initial_state :: view_state where
  "initial_state =
     \<lparr>showPermissionRequest = True, isLoading = False, cameraReady = False,
      lastError = None, isRunning = False, cdnAvailable = True,
      webcamRef = None, canvasRef = None, faceMeshRef = None, cameraRef = None,
      trace = []\<rparr>"

text \<open>
  A call of a method of an instance: the call is recorded, and it returns or throws as the
  instance says.
\<close>

definition call :: "event \<Rightarrow> js_value option \<Rightarrow> view_state \<Rightarrow> completion \<times> view_state" where
  "call ev outcome s =
     (case outcome of
        None \<Rightarrow> (Normal, emit ev s)
      | Some e \<Rightarrow> (Throw e, emit ev s))"

section \<open>Mesh overlay renderer\<close>

record results =
  multiFaceLandmarks :: "landmarks list option"

definition mesh_style :: draw_style where
  "mesh_style = \<lparr>color = ''rgba(255, 255, 255, 0.2)'', lineWidth = 8 / 10, radius = None\<rparr>"

definition feature_style :: draw_style where
  "feature_style = \<lparr>color = ''rgba(255, 255, 255, 0.8)'', lineWidth = 15 / 10, radius = None\<rparr>"

definition point_style :: draw_style where
  "point_style =
     \<lparr>color = ''rgba(255, 255, 255, 0.6)'', lineWidth = 8 / 10, radius = Some (12 / 10)\<rparr>"

text \<open>
  The body of the \<^verbatim>\<open>for\<close> loop of \<^verbatim>\<open>onResults\<close>: eight helper calls for one face, each
  reached only when the one before it has returned.
\<close>

definition draw_face :: "window \<Rightarrow> landmarks \<Rightarrow> context2d \<Rightarrow> completion \<times> context2d" where
  "draw_face w lms ctx =
     and_then (call_drawConnectors w lms FACEMESH_TESSELATION mesh_style ctx) (\<lambda>c1.
     and_then (call_drawConnectors w lms FACEMESH_RIGHT_EYE feature_style c1) (\<lambda>c2.
     and_then (call_drawConnectors w lms FACEMESH_LEFT_EYE feature_style c2) (\<lambda>c3.
     and_then (call_drawConnectors w lms FACEMESH_RIGHT_EYEBROW feature_style c3) (\<lambda>c4.
     and_then (call_drawConnectors w lms FACEMESH_LEFT_EYEBROW feature_style c4) (\<lambda>c5.
     and_then (call_drawConnectors w lms FACEMESH_FACE_OVAL feature_style c5) (\<lambda>c6.
     and_then (call_drawConnectors w lms FACEMESH_LIPS feature_style c6) (\<lambda>c7.
       call_drawLandmarks w lms point_style c7)))))))"

text \<open>The loop \<^verbatim>\<open>for (const landmarks of results.multiFaceLandmarks)\<close>.\<close>

fun draw_faces :: "window \<Rightarrow> landmarks list \<Rightarrow> context2d \<Rightarrow> completion \<times> context2d" where
  "draw_faces w [] ctx = (Normal, ctx)"
| "draw_faces w (lms # rest) ctx = and_then (draw_face w lms ctx) (draw_faces w rest)"

text \<open>
  \<^verbatim>\<open>onResults\<close>. The two early returns come first; an absent \<^verbatim>\<open>multiFaceLandmarks\<close> is
  falsy, an empty array fails the length test. There is no \<^verbatim>\<open>try\<close> in the function: when
  a helper call throws, the remaining calls and \<^verbatim>\<open>ctx.restore()\<close> are not reached and the
  exception leaves the function.
\<close>

definition onResults :: "window \<Rightarrow> results \<Rightarrow> view_state \<Rightarrow> completion \<times> view_state" where
  "onResults w res s =
     (case canvasRef s of
        None \<Rightarrow> (Normal, s)
      | Some cv \<Rightarrow>
          (case getContext2d cv of
             None \<Rightarrow> (Normal, s)
           | Some ctx \<Rightarrow>
               (let c1 = ctx_save ctx;
                    c2 = ctx_clearRect 0 0 (of_nat (width cv)) (of_nat (height cv)) c1;
                    c3 = ctx_scale (- 1) 1 c2;
                    c4 = ctx_translate (- of_nat (width cv)) 0 c3
                in case (case multiFaceLandmarks res of
                           None \<Rightarrow> (Normal, c4)
                         | Some faces \<Rightarrow>
                             if length faces > 0 then draw_faces w faces c4 else (Normal, c4)) of
                     (Normal, c5) \<Rightarrow>
                       (Normal, s\<lparr>canvasRef := Some (cv\<lparr>getContext2d := Some (ctx_restore c5)\<rparr>)\<rparr>)
                   | (Throw e, c5) \<Rightarrow>
                       (Throw e, s\<lparr>canvasRef := Some (cv\<lparr>getContext2d := Some c5\<rparr>)\<rparr>))))"

text \<open>The context of the mounted canvas, and the calls made on it so far, if there is one.\<close>

definition canvas_context :: "view_state \<Rightarrow> context2d option" where
  "canvas_context s =
     (case canvasRef s of
        None \<Rightarrow> None
      | Some cv \<Rightarrow> getContext2d cv)"

definition canvas_calls :: "view_state \<Rightarrow> canvas_call list" where
  "canvas_calls s =
     (case canvasRef s of
        None \<Rightarrow> []
      | Some cv \<Rightarrow> (case getContext2d cv of None \<Rightarrow> [] | Some ctx \<Rightarrow> calls ctx))"

text \<open>The calls of the drawing helpers, and the calls that touch pixels.\<close>

fun is_draw :: "canvas_call \<Rightarrow> bool" where
  "is_draw (DrawConnectors lms conns style) = True"
| "is_draw (DrawLandmarks lms style) = True"
| "is_draw c = False"

fun touches_pixels :: "canvas_call \<Rightarrow> bool" where
  "touches_pixels (ClearRect x y w h) = True"
| "touches_pixels (DrawConnectors lms conns style) = True"
| "touches_pixels (DrawLandmarks lms style) = True"
| "touches_pixels c = False"

text \<open>One pass of the full draw sequence over a face, written out call by call.\<close>

definition draw_pass :: "landmarks \<Rightarrow> canvas_call list" where
  "draw_pass lms =
     [DrawConnectors lms FACEMESH_TESSELATION mesh_style,
      DrawConnectors lms FACEMESH_RIGHT_EYE feature_style,
      DrawConnectors lms FACEMESH_LEFT_EYE feature_style,
      DrawConnectors lms FACEMESH_RIGHT_EYEBROW feature_style,
      DrawConnectors lms FACEMESH_LEFT_EYEBROW feature_style,
      DrawConnectors lms FACEMESH_FACE_OVAL feature_style,
      DrawConnectors lms FACEMESH_LIPS feature_style,
      DrawLandmarks lms point_style]"

section \<open>Availability prober\<close>

text \<open>\<^verbatim>\<open>checkMediaPipeAvailability\<close>: sets the flag and returns it.\<close>

definition checkMediaPipeAvailability :: "window \<Rightarrow> view_state \<Rightarrow> bool \<times> view_state" where
  "checkMediaPipeAvailability w s =
     (let isAvailable = (FaceMesh w \<noteq> None \<and> Camera w \<noteq> None \<and> drawConnectors w \<noteq> None)
      in (isAvailable, s\<lparr>cdnAvailable := isAvailable\<rparr>))"

datatype timer_callback = CheckAvailability | ReloadScripts

datatype timer = SetInterval timer_callback nat | SetTimeout timer_callback nat

definition script_url :: "string \<Rightarrow> string" where
  "script_url lib = ''https://cdn.jsdelivr.net/npm/@mediapipe/'' @ lib @ ''/'' @ lib @ ''.js''"

text \<open>The callback given to \<^verbatim>\<open>setTimeout\<close>: one more check, then the three script tags.\<close>

definition reloadScripts :: "window \<Rightarrow> view_state \<Rightarrow> view_state" where
  "reloadScripts w s =
     (case checkMediaPipeAvailability w s of
        (True, s1) \<Rightarrow> s1
      | (False, s1) \<Rightarrow>
          foldl (\<lambda>st lib. emit (AppendScript (script_url lib)) st)
            (emit (ConsoleLog ''MediaPipe not available after timeout, reloading scripts'') s1)
            [''camera_utils'', ''drawing_utils'', ''face_mesh''])"

text \<open>
  The first \<^verbatim>\<open>useEffect\<close> of the component, run once after mounting: an initial check,
  and the two timers it registers.
\<close>

definition availability_effect :: "window \<Rightarrow> view_state \<Rightarrow> view_state \<times> timer list" where
  "availability_effect w s =
     (snd (checkMediaPipeAvailability w s),
      [SetInterval CheckAvailability 1000, SetTimeout ReloadScripts 3000])"

text \<open>A timer fires: its callback runs against the globals present at that moment.\<close>

fun run_callback :: "timer_callback \<Rightarrow> window \<Rightarrow> view_state \<Rightarrow> view_state" where
  "run_callback CheckAvailability w s = snd (checkMediaPipeAvailability w s)"
| "run_callback ReloadScripts w s = reloadScripts w s"

text \<open>The interval fires once for each element of a list of successive global environments.\<close>

fun poll :: "window list \<Rightarrow> view_state \<Rightarrow> view_state" where
  "poll [] s = s"
| "poll (w # ws) s = poll ws (run_callback CheckAvailability w s)"

section \<open>Permission gate and capture surface\<close>

definition handleRequestCameraAccess :: "view_state \<Rightarrow> view_state" where
  "handleRequestCameraAccess s = s\<lparr>showPermissionRequest := False, isLoading := True\<rparr>"

definition handleWebcamLoad :: "view_state \<Rightarrow> view_state" where
  "handleWebcamLoad s =
     (emit (ConsoleLog ''Webcam loaded'') s)\<lparr>cameraReady := True, isLoading := False\<rparr>"

text \<open>\<^verbatim>\<open>String.prototype.includes\<close>, by trying every position.\<close>

fun starts_with :: "string \<Rightarrow> string \<Rightarrow> bool" where
  "starts_with [] str = True"
| "starts_with (c # p) [] = False"
| "starts_with (c # p) (d # str) = (c = d \<and> starts_with p str)"

fun includes_str :: "string \<Rightarrow> string \<Rightarrow> bool" where
  "includes_str [] p = starts_with p []"
| "includes_str (c # str) p = (starts_with p (c # str) \<or> includes_str str p)"

text \<open>
  The message \<^verbatim>\<open>handleWebcamError\<close> extracts (the \<^verbatim>\<open>message\<close> of a \<^verbatim>\<open>DOMException\<close>, a
  string itself, a fixed text for anything else), and its test for a permission error.
\<close>

fun webcam_error_message :: "js_value \<Rightarrow> string" where
  "webcam_error_message (DOMException n m) = m"
| "webcam_error_message (JsString str) = str"
| "webcam_error_message e = ''Error accessing camera''"

definition is_permission_message :: "string \<Rightarrow> bool" where
  "is_permission_message msg = (includes_str msg ''Permission'' \<or> includes_str msg ''permission'')"

definition handleWebcamError :: "js_value \<Rightarrow> view_state \<Rightarrow> view_state" where
  "handleWebcamError error s =
     (let s1 = emit (ConsoleError ''Webcam error:'' error) s;
          errorMessage = webcam_error_message error;
          s2 = (if is_permission_message errorMessage
                then s1\<lparr>showPermissionRequest := True\<rparr> else s1)
      in s2\<lparr>lastError := Some errorMessage, isLoading := False\<rparr>)"

text \<open>
  What the browser reports when the user, or the platform, refuses camera access: a
  \<^verbatim>\<open>DOMException\<close> named \<^verbatim>\<open>NotAllowedError\<close>; the message text differs between browsers.
\<close>

fun is_permission_denied :: "js_value \<Rightarrow> bool" where
  "is_permission_denied (DOMException n m) = (n = ''NotAllowedError'')"
| "is_permission_denied e = False"

section \<open>Orchestrator\<close>

definition not_available_message :: string where
  "not_available_message =
     ''MediaPipe libraries are not available. Please check your internet connection and try again.''"

text \<open>
  The \<^verbatim>\<open>try\<close> block of \<^verbatim>\<open>startFaceMesh\<close>, up to and including the call of
  \<^verbatim>\<open>cameraRef.current.start()\<close>. \<open>NewFaceMesh\<close> and \<open>NewCamera\<close> are recorded when the
  constructor has returned an instance.
\<close>

definition startFaceMesh_try ::
  "window \<Rightarrow> video_element \<Rightarrow> view_state \<Rightarrow> completion \<times> view_state" where
  "startFaceMesh_try w v s0 =
     (let s1 = s0\<lparr>isLoading := True\<rparr> in
      if \<not> cdnAvailable s1 then (Throw (JsError not_available_message), s1)
      else
        (let s2 = emit (ConsoleLog ''Initializing FaceMesh'') s1 in
         case js_new ''window.FaceMesh'' (FaceMesh w) of
           Inl e \<Rightarrow> (Throw e, s2)
         | Inr fm \<Rightarrow>
             and_then (Normal, emit NewFaceMesh (s2\<lparr>faceMeshRef := Some fm\<rparr>)) (\<lambda>s3.
             and_then (call (SetOptions 1 True (5 / 10) (5 / 10)) (fm_setOptions fm) s3) (\<lambda>s4.
             and_then (call RegisterOnResults (fm_onResults fm) s4) (\<lambda>s5.
               (let s6 = emit (ConsoleLog ''Creating camera instance'') s5 in
                case js_new ''window.Camera'' (Camera w) of
                  Inl e \<Rightarrow> (Throw e, s6)
                | Inr cam \<Rightarrow>
                    (let s7 = emit (NewCamera v 640 480) (s6\<lparr>cameraRef := Some cam\<rparr>);
                         s8 = emit (ConsoleLog ''Starting camera'') s7
                     in call CameraStart (cam_start cam) s8)))))))"

text \<open>
  \<^verbatim>\<open>startFaceMesh\<close>: the guard, the \<^verbatim>\<open>try\<close> block and its \<^verbatim>\<open>catch\<close>. When the block
  completes, the promise of \<^verbatim>\<open>start()\<close> is pending. The \<^verbatim>\<open>catch\<close> logs, then reads
  \<^verbatim>\<open>error.message\<close>: when that read throws, neither setter is reached and the TypeError
  leaves the function.
\<close>

definition startFaceMesh :: "window \<Rightarrow> view_state \<Rightarrow> completion \<times> view_state" where
  "startFaceMesh w s =
     (case webcamRef s of
        None \<Rightarrow> (Normal, s)
      | Some wc \<Rightarrow>
          (case video wc of
             None \<Rightarrow> (Normal, s)
           | Some v \<Rightarrow>
               if canvasRef s = None \<or> isRunning s then (Normal, s)
               else
                 (case startFaceMesh_try w v s of
                    (Normal, s') \<Rightarrow> (Normal, s')
                  | (Throw e, s') \<Rightarrow>
                      (let s1 = emit (ConsoleError ''Error in startFaceMesh:'' e) s' in
                       case message_or e ''Failed to initialize face mesh'' of
                         Inl t \<Rightarrow> (Throw t, s1)
                       | Inr m \<Rightarrow> (Normal, s1\<lparr>lastError := Some m, isLoading := False\<rparr>)))))"

text \<open>
  The promise of \<^verbatim>\<open>start()\<close> settles: the \<^verbatim>\<open>then\<close> or the \<^verbatim>\<open>catch\<close> callback, followed by
  the \<^verbatim>\<open>finally\<close> callback. When the \<^verbatim>\<open>catch\<close> callback throws on reading
  \<^verbatim>\<open>error.message\<close>, the \<^verbatim>\<open>finally\<close> callback still runs and the promise of the whole
  chain is rejected, with nobody to handle it.
\<close>

datatype settlement = Resolved | Rejected js_value

definition cameraStartSettled :: "settlement \<Rightarrow> view_state \<Rightarrow> completion \<times> view_state" where
  "cameraStartSettled outcome s =
     (case outcome of
        Resolved \<Rightarrow>
          (Normal,
           (emit (ConsoleLog ''Camera started successfully'') s)
             \<lparr>isRunning := True, lastError := None, isLoading := False\<rparr>)
      | Rejected e \<Rightarrow>
          (let s1 = emit (ConsoleError ''Error starting camera:'' e) s in
           case message_or e ''Failed to start camera'' of
             Inl t \<Rightarrow> (Throw t, s1\<lparr>isLoading := False\<rparr>)
           | Inr m \<Rightarrow> (Normal, s1\<lparr>lastError := Some m, isLoading := False\<rparr>)))"

text \<open>The \<^verbatim>\<open>onFrame\<close> callback given to the camera loop.\<close>

definition onFrame :: "view_state \<Rightarrow> view_state" where
  "onFrame s =
     (case faceMeshRef s of
        None \<Rightarrow> s
      | Some fm \<Rightarrow>
          (case webcamRef s of
             None \<Rightarrow> s
           | Some wc \<Rightarrow>
               (case video wc of
                  None \<Rightarrow> s
                | Some v \<Rightarrow>
                    (case call (FaceMeshSend v) (fm_send fm) s of
                       (Normal, s') \<Rightarrow> s'
                     | (Throw e, s') \<Rightarrow>
                         emit (ConsoleError ''Error sending frame to facemesh:'' e) s'))))"

text \<open>The \<^verbatim>\<open>try\<close> block of \<^verbatim>\<open>stopFaceMesh\<close>, then the function with its \<^verbatim>\<open>catch\<close>.\<close>

definition stopFaceMesh_try :: "view_state \<Rightarrow> completion \<times> view_state" where
  "stopFaceMesh_try s =
     and_then (case cameraRef s of
                 None \<Rightarrow> (Normal, s)
               | Some cam \<Rightarrow> call CameraStop (cam_stop cam) s) (\<lambda>s1.
     and_then (case faceMeshRef s1 of
                 None \<Rightarrow> (Normal, s1)
               | Some fm \<Rightarrow> call FaceMeshClose (fm_close fm) s1) (\<lambda>s2.
       (Normal, s2\<lparr>isRunning := False\<rparr>)))"

definition stopFaceMesh :: "view_state \<Rightarrow> completion \<times> view_state" where
  "stopFaceMesh s =
     (case stopFaceMesh_try s of
        (Normal, s') \<Rightarrow> (Normal, s')
      | (Throw e, s') \<Rightarrow> (Normal, emit (ConsoleError ''Error stopping face mesh:'' e) s'))"

text \<open>The effect that starts face detection; it runs when one of its dependencies changed.\<close>

definition has_video :: "view_state \<Rightarrow> bool" where
  "has_video s = (case webcamRef s of None \<Rightarrow> False | Some wc \<Rightarrow> video wc \<noteq> None)"

definition start_effect_fires :: "view_state \<Rightarrow> bool" where
  "start_effect_fires s =
     (\<not> showPermissionRequest s \<and> cameraReady s \<and> \<not> isRunning s \<and> has_video s)"

definition start_effect :: "window \<Rightarrow> view_state \<Rightarrow> completion \<times> view_state" where
  "start_effect w s =
     (if start_effect_fires s
      then startFaceMesh w (emit (ConsoleLog ''Starting face detection'') s)
      else (Normal, s))"


text \<open>Stop invoked \<open>n\<close> times in a row; the completion is that of the last call.\<close>

fun stop_repeatedly :: "nat \<Rightarrow> view_state \<Rightarrow> completion \<times> view_state" where
  "stop_repeatedly 0 s = (Normal, s)"
| "stop_repeatedly (Suc n) s = and_then (stopFaceMesh s) (stop_repeatedly n)"

section \<open>A session over time\<close>

text \<open>
  What can happen to the component once its elements are mounted: a direct call of
  \<^verbatim>\<open>startFaceMesh\<close>, a run of the start effect, the promise of a \<^verbatim>\<open>start()\<close> settling, a
  frame of the camera loop, a landmark result, a firing of the availability interval. An
  exception that leaves a handler goes to the event loop; the component carries on from the
  state the handler left.
\<close>

datatype session_event =
    StartCalled window
  | StartEffect window
  | StartSettled settlement
  | FrameTick
  | ResultsDelivered window results
  | AvailabilityTick window

fun session_step :: "session_event \<Rightarrow> view_state \<Rightarrow> view_state" where
  "session_step (StartCalled w) s = snd (startFaceMesh w s)"
| "session_step (StartEffect w) s = snd (start_effect w s)"
| "session_step (StartSettled outcome) s = snd (cameraStartSettled outcome s)"
| "session_step FrameTick s = onFrame s"
| "session_step (ResultsDelivered w res) s = snd (onResults w res s)"
| "session_step (AvailabilityTick w) s = run_callback CheckAvailability w s"

fun session_run :: "session_event list \<Rightarrow> view_state \<Rightarrow> view_state" where
  "session_run [] s = s"
| "session_run (ev # evs) s = session_run evs (session_step ev s)"



section \<open>Concrete inputs\<close>

text \<open>
  A face of two landmarks and another of one, a fresh 640 by 480 canvas, well-behaved
  instances of the detector and the camera loop, a detector whose \<^verbatim>\<open>send\<close> throws, a
  camera loop whose \<^verbatim>\<open>stop\<close> throws and one whose \<^verbatim>\<open>start\<close> throws \<^verbatim>\<open>undefined\<close>.
\<close>

definition example_face :: landmarks where
  "example_face = [(1 / 2, 1 / 2, 0), (1 / 4, 3 / 4, 0)]"

definition other_face :: landmarks where
  "other_face = [(3 / 4, 1 / 4, 0)]"

definition example_context :: context2d where
  "example_context = \<lparr>transform = (1, 0, 0, 1, 0, 0), saved = [], calls = []\<rparr>"

definition example_canvas :: canvas where
  "example_canvas = \<lparr>width = 640, height = 480, getContext2d = Some example_context\<rparr>"

definition example_faceMesh :: faceMesh where
  "example_faceMesh =
     \<lparr>fm_setOptions = None, fm_onResults = None, fm_send = None, fm_close = None\<rparr>"

definition failing_faceMesh :: faceMesh where
  "failing_faceMesh = example_faceMesh\<lparr>fm_send := Some (JsError ''send failed'')\<rparr>"

definition example_camera :: camera where
  "example_camera = \<lparr>cam_start = None, cam_stop = None\<rparr>"

definition failing_camera :: camera where
  "failing_camera = example_camera\<lparr>cam_stop := Some (JsError ''stop failed'')\<rparr>"

definition unstartable_camera :: camera where
  "unstartable_camera = example_camera\<lparr>cam_start := Some JsUndefined\<rparr>"

text \<open>
  The global environment once the three scripts have loaded, with helpers that always
  return; the environment while no script has loaded; and one in which
  \<^verbatim>\<open>window.drawLandmarks\<close> is missing while everything the availability check looks at is
  there.
\<close>

definition example_window :: window where
  "example_window =
     \<lparr>FaceMesh = Some (Inr example_faceMesh), Camera = Some (Inr example_camera),
      drawConnectors = Some (\<lambda>lms conns style. None),
      drawLandmarks = Some (\<lambda>lms style. None)\<rparr>"

definition empty_window :: window where
  "empty_window =
     \<lparr>FaceMesh = None, Camera = None, drawConnectors = None, drawLandmarks = None\<rparr>"

definition half_loaded_window :: window where
  "half_loaded_window = example_window\<lparr>drawLandmarks := None\<rparr>"

text \<open>
  What two browsers report when camera access is refused: the same exception name, two
  message texts.
\<close>

definition denied_with_permission_text :: js_value where
  "denied_with_permission_text = DOMException ''NotAllowedError'' ''Permission denied''"

definition denied_without_permission_text :: js_value where
  "denied_without_permission_text =
     DOMException ''NotAllowedError''
       ''The request is not allowed by the user agent or the platform in the current context.''"

text \<open>
  States the component passes through. After mounting, the user grants access and the video
  and canvas elements are mounted: \<open>requesting_state\<close>. The webcam loads: \<open>mounted_state\<close>
  with the scripts loaded, \<open>offline_state\<close> without. From \<open>mounted_state\<close> the start effect
  runs and the promise of \<^verbatim>\<open>start()\<close> resolves: \<open>running_state\<close>; \<open>send_failing_state\<close>
  when the detector is one whose \<^verbatim>\<open>send\<close> throws, \<open>stop_failing_state\<close> when the camera
  loop is one whose \<^verbatim>\<open>stop\<close> throws. \<open>unmounted_state\<close> is what is left after the component
  is torn down while running: the elements are gone, and results of a frame in flight can
  still be delivered. \<open>double_start_state\<close> is reached when \<^verbatim>\<open>startFaceMesh\<close> is invoked a
  second time before the promise of the first \<^verbatim>\<open>start()\<close> has settled, and both promises
  then resolve.
\<close>

definition mount_surface :: "view_state \<Rightarrow> view_state" where
  "mount_surface s = s\<lparr>webcamRef := Some \<lparr>video = Some 0\<rparr>, canvasRef := Some example_canvas\<rparr>"

definition requesting_state :: view_state where
  "requesting_state =
     mount_surface (handleRequestCameraAccess
       (fst (availability_effect example_window initial_state)))"

definition mounted_state :: view_state where
  "mounted_state = handleWebcamLoad requesting_state"


definition running_state :: view_state where
  "running_state =
     session_run [StartEffect example_window, StartSettled Resolved] mounted_state"

definition send_failing_state :: view_state where
  "send_failing_state =
     session_run
       [StartEffect (example_window\<lparr>FaceMesh := Some (Inr failing_faceMesh)\<rparr>),
        StartSettled Resolved] mounted_state"

definition stop_failing_state :: view_state where
  "stop_failing_state =
     session_run
       [StartEffect (example_window\<lparr>Camera := Some (Inr failing_camera)\<rparr>),
        StartSettled Resolved] mounted_state"

definition unmounted_state :: view_state where
  "unmounted_state = (snd (stopFaceMesh running_state))\<lparr>webcamRef := None, canvasRef := None\<rparr>"


text \<open>What a successful start has logged and called by the time the session runs.\<close>

definition started_trace :: "event list" where
  "started_trace =
     [ConsoleLog ''Webcam loaded'', ConsoleLog ''Starting face detection'',
      ConsoleLog ''Initializing FaceMesh'', NewFaceMesh, SetOptions 1 True (1 / 2) (1 / 2),
      RegisterOnResults, ConsoleLog ''Creating camera instance'', NewCamera 0 640 480,
      ConsoleLog ''Starting camera'', CameraStart, ConsoleLog ''Camera started successfully'']"

text \<open>Landmark results with one face, with two faces, and with none.\<close>

definition one_face :: results where
  "one_face = \<lparr>multiFaceLandmarks = Some [example_face]\<rparr>"

definition two_faces :: results where
  "two_faces = \<lparr>multiFaceLandmarks = Some [example_face, other_face]\<rparr>"

definition no_face :: results where
  "no_face = \<lparr>multiFaceLandmarks = Some []\<rparr>"

section \<open>The concrete states, evaluated\<close>

lemmas start_defs =
  start_effect_def start_effect_fires_def has_video_def startFaceMesh_def startFaceMesh_try_def
  cameraStartSettled_def emit_def and_then_def call_def js_new_def message_or_def

lemma requesting_state_eq:
  "requesting_state =
     \<lparr>showPermissionRequest = False, isLoading = True, cameraReady = False, lastError = None,
      isRunning = False, cdnAvailable = True, webcamRef = Some \<lparr>video = Some 0\<rparr>,
      canvasRef = Some example_canvas, faceMeshRef = None, cameraRef = None, trace = []\<rparr>"
  by (simp add: requesting_state_def mount_surface_def handleRequestCameraAccess_def
      availability_effect_def checkMediaPipeAvailability_def example_window_def
      initial_state_def)

lemma mounted_state_eq:
  "mounted_state =
     \<lparr>showPermissionRequest = False, isLoading = False, cameraReady = True, lastError = None,
      isRunning = False, cdnAvailable = True, webcamRef = Some \<lparr>video = Some 0\<rparr>,
      canvasRef = Some example_canvas, faceMeshRef = None, cameraRef = None,
      trace = [ConsoleLog ''Webcam loaded'']\<rparr>"
  by (simp add: mounted_state_def requesting_state_eq handleWebcamLoad_def emit_def)


lemma running_state_eq:
  "running_state =
     \<lparr>showPermissionRequest = False, isLoading = False, cameraReady = True, lastError = None,
      isRunning = True, cdnAvailable = True, webcamRef = Some \<lparr>video = Some 0\<rparr>,
      canvasRef = Some example_canvas, faceMeshRef = Some example_faceMesh,
      cameraRef = Some example_camera, trace = started_trace\<rparr>"
  by (simp add: running_state_def mounted_state_eq example_window_def example_faceMesh_def
      example_camera_def started_trace_def start_defs)

lemma send_failing_state_eq:
  "send_failing_state =
     \<lparr>showPermissionRequest = False, isLoading = False, cameraReady = True, lastError = None,
      isRunning = True, cdnAvailable = True, webcamRef = Some \<lparr>video = Some 0\<rparr>,
      canvasRef = Some example_canvas, faceMeshRef = Some failing_faceMesh,
      cameraRef = Some example_camera, trace = started_trace\<rparr>"
  by (simp add: send_failing_state_def mounted_state_eq example_window_def failing_faceMesh_def
      example_faceMesh_def example_camera_def started_trace_def start_defs)

lemma stop_failing_state_eq:
  "stop_failing_state =
     \<lparr>showPermissionRequest = False, isLoading = False, cameraReady = True, lastError = None,
      isRunning = True, cdnAvailable = True, webcamRef = Some \<lparr>video = Some 0\<rparr>,
      canvasRef = Some example_canvas, faceMeshRef = Some example_faceMesh,
      cameraRef = Some failing_camera, trace = started_trace\<rparr>"
  by (simp add: stop_failing_state_def mounted_state_eq example_window_def failing_camera_def
      example_faceMesh_def example_camera_def started_trace_def start_defs)

lemma unmounted_state_eq:
  "unmounted_state =
     \<lparr>showPermissionRequest = False, isLoading = False, cameraReady = True, lastError = None,
      isRunning = False, cdnAvailable = True, webcamRef = None, canvasRef = None,
      faceMeshRef = Some example_faceMesh, cameraRef = Some example_camera,
      trace = started_trace @ [CameraStop, FaceMeshClose]\<rparr>"
  by (simp add: unmounted_state_def running_state_eq stopFaceMesh_def stopFaceMesh_try_def
      example_faceMesh_def example_camera_def and_then_def call_def emit_def)

text \<open>
  The session also starts, and reaches the same state, when \<^verbatim>\<open>window.drawLandmarks\<close> is
  missing: the availability check does not look at it.
\<close>

lemma half_loaded_session_runs:
  "fst (checkMediaPipeAvailability half_loaded_window initial_state)
   \<and> session_run [StartEffect half_loaded_window, StartSettled Resolved] mounted_state =
       running_state"
  by (simp add: running_state_eq mounted_state_eq half_loaded_window_def example_window_def
      example_faceMesh_def example_camera_def started_trace_def checkMediaPipeAvailability_def
      start_defs)

section \<open>Mesh overlay renderer: what one call does\<close>

lemma and_then_Normal:
  assumes "fst (and_then r f) = Normal"
  shows "fst r = Normal \<and> and_then r f = f (snd r)"
  using assms by (cases r; cases "fst r") (auto simp: and_then_def)

lemma draw_face_Normal:
  assumes "fst (draw_face w lms ctx) = Normal"
  shows "draw_face w lms ctx = (Normal, ctx\<lparr>calls := calls ctx @ draw_pass lms\<rparr>)"
  using assms
  by (auto simp: draw_face_def and_then_def call_drawConnectors_def call_drawLandmarks_def
      ctx_record_def draw_pass_def split: option.splits)

lemma draw_face_returns:
  assumes "drawConnectors w = Some dc" and "drawLandmarks w = Some dl"
    and "\<forall>conns style. dc lms conns style = None" and "\<forall>style. dl lms style = None"
  shows "fst (draw_face w lms ctx) = Normal"
  using assms
  by (simp add: draw_face_def and_then_def call_drawConnectors_def call_drawLandmarks_def)

lemma draw_faces_Normal:
  assumes "fst (draw_faces w faces ctx) = Normal"
  shows "draw_faces w faces ctx =
           (Normal, ctx\<lparr>calls := calls ctx @ concat (map draw_pass faces)\<rparr>)"
  using assms
proof (induction faces arbitrary: ctx)
  case Nil
  then show ?case by simp
next
  case (Cons lms rest)
  from Cons.prems have face: "fst (draw_face w lms ctx) = Normal"
    and rest: "fst (draw_faces w rest (snd (draw_face w lms ctx))) = Normal"
    using and_then_Normal [of "draw_face w lms ctx" "draw_faces w rest"] by simp_all
  from draw_face_Normal [OF face] rest Cons.IH [of "ctx\<lparr>calls := calls ctx @ draw_pass lms\<rparr>"]
  show ?case by (simp add: and_then_def)
qed

lemma draw_faces_returns:
  assumes "drawConnectors w = Some dc" and "drawLandmarks w = Some dl"
    and "\<forall>lms\<in>set faces. \<forall>conns style. dc lms conns style = None"
    and "\<forall>lms\<in>set faces. \<forall>style. dl lms style = None"
  shows "fst (draw_faces w faces ctx) = Normal"
  using assms
proof (induction faces arbitrary: ctx)
  case Nil
  then show ?case by simp
next
  case (Cons lms rest)
  have "fst (draw_face w lms ctx) = Normal"
    using Cons.prems by (intro draw_face_returns [of w dc dl]) simp_all
  from draw_face_Normal [OF this] Cons show ?case by (simp add: and_then_def)
qed

text \<open>The context as the helpers find it: entry state pushed, canvas cleared, mirror applied.\<close>

lemma mirrored_context:
  "ctx_translate (- of_nat (width cv)) 0 (ctx_scale (- 1) 1
     (ctx_clearRect 0 0 (of_nat (width cv)) (of_nat (height cv)) (ctx_save ctx))) =
   \<lparr>transform =
      (case transform ctx of
         (a, b, c, d, e, f) \<Rightarrow>
           (- a, - b, c, d, a * of_nat (width cv) + e, b * of_nat (width cv) + f)),
    saved = transform ctx # saved ctx,
    calls = calls ctx @
      [Save, ClearRect 0 0 (of_nat (width cv)) (of_nat (height cv)), Scale (- 1) 1,
       Translate (- of_nat (width cv)) 0]\<rparr>"
  by (cases "transform ctx")
     (simp add: ctx_translate_def ctx_scale_def ctx_clearRect_def ctx_save_def ctx_record_def)

lemma onResults_fst:
  "fst (onResults w res s) =
     (case canvasRef s of
        None \<Rightarrow> Normal
      | Some cv \<Rightarrow>
          (case getContext2d cv of
             None \<Rightarrow> Normal
           | Some ctx \<Rightarrow>
               (case multiFaceLandmarks res of
                  None \<Rightarrow> Normal
                | Some faces \<Rightarrow>
                    if faces = [] then Normal
                    else fst (draw_faces w faces
                      (ctx_translate (- of_nat (width cv)) 0 (ctx_scale (- 1) 1
                        (ctx_clearRect 0 0 (of_nat (width cv)) (of_nat (height cv))
                          (ctx_save ctx))))))))"
  by (simp add: onResults_def Let_def split: option.splits prod.splits completion.splits)

text \<open>
  A call that returns normally on a mounted canvas leaves the context with the matrix and
  the stack it had on entry, and has made exactly these calls on it: \<^verbatim>\<open>save\<close>,
  \<^verbatim>\<open>clearRect\<close> over the whole canvas, the mirror (\<^verbatim>\<open>scale\<close>, \<^verbatim>\<open>translate\<close>), one pass for
  each face delivered, \<^verbatim>\<open>restore\<close>.
\<close>

lemma onResults_Normal:
  assumes "canvasRef s = Some cv" and "getContext2d cv = Some ctx"
    and "fst (onResults w res s) = Normal"
  shows "onResults w res s =
           (Normal,
            s\<lparr>canvasRef := Some (cv\<lparr>getContext2d := Some
                (ctx\<lparr>calls := calls ctx @
                   [Save, ClearRect 0 0 (of_nat (width cv)) (of_nat (height cv)), Scale (- 1) 1,
                    Translate (- of_nat (width cv)) 0] @
                   (case multiFaceLandmarks res of
                      None \<Rightarrow> []
                    | Some faces \<Rightarrow> concat (map draw_pass faces)) @ [Restore]\<rparr>)\<rparr>)\<rparr>)"
proof (cases "multiFaceLandmarks res")
  case None
  with assms show ?thesis
    by (simp add: onResults_def Let_def mirrored_context ctx_restore_def ctx_record_def)
next
  case (Some faces)
  show ?thesis
  proof (cases "faces = []")
    case True
    with Some assms show ?thesis
      by (simp add: onResults_def Let_def mirrored_context ctx_restore_def ctx_record_def)
  next
    case False
    let ?c4 = "ctx_translate (- of_nat (width cv)) 0 (ctx_scale (- 1) 1
      (ctx_clearRect 0 0 (of_nat (width cv)) (of_nat (height cv)) (ctx_save ctx)))"
    from False Some assms have "fst (draw_faces w faces ?c4) = Normal"
      by (simp add: onResults_fst)
    from draw_faces_Normal [OF this] Some False assms show ?thesis
      by (simp add: onResults_def Let_def mirrored_context ctx_restore_def ctx_record_def)
  qed
qed

lemma onResults_no_face_Normal:
  assumes "multiFaceLandmarks res = None \<or> multiFaceLandmarks res = Some []"
  shows "fst (onResults w res s) = Normal"
  using assms by (auto simp: onResults_fst split: option.splits)

lemma onResults_returns:
  assumes "multiFaceLandmarks res = Some faces"
    and "drawConnectors w = Some dc" and "drawLandmarks w = Some dl"
    and "\<forall>lms\<in>set faces. \<forall>conns style. dc lms conns style = None"
    and "\<forall>lms\<in>set faces. \<forall>style. dl lms style = None"
  shows "fst (onResults w res s) = Normal"
proof -
  have "fst (draw_faces w faces ctx) = Normal" for ctx
    using assms(2-5) by (rule draw_faces_returns)
  then show ?thesis
    using assms(1) by (simp add: onResults_fst split: option.splits)
qed

lemma draw_pass_all_draws: "filter is_draw (draw_pass lms) = draw_pass lms"
  by (simp add: draw_pass_def)

lemma length_draw_pass: "length (draw_pass lms) = 8"
  by (simp add: draw_pass_def)

lemma filter_draw_passes:
  "filter is_draw (concat (map draw_pass faces)) = concat (map draw_pass faces)"
  by (induction faces) (simp_all add: draw_pass_all_draws)

lemma length_draw_passes: "length (concat (map draw_pass faces)) = 8 * length faces"
  by (induction faces) (simp_all add: length_draw_pass)

text \<open>
  Claim C1, as stated: every landmark result with \<open>N \<ge> 1\<close> faces delivered to \<^verbatim>\<open>onResults\<close>
  gives exactly \<open>N\<close> passes of the draw sequence. It fails in two ways. When the canvas is
  not mounted (one face is delivered to the torn-down component), \<^verbatim>\<open>onResults\<close> returns at
  its first line and draws nothing. When \<^verbatim>\<open>window.drawLandmarks\<close> is missing, the seven
  connector draws of the first face are made, the eighth call throws, and the pass is never
  completed.
\<close>

theorem onResults_incomplete_passes:
  "multiFaceLandmarks one_face = Some [example_face]
   \<and> canvasRef unmounted_state = None
   \<and> onResults example_window one_face unmounted_state = (Normal, unmounted_state)
   \<and> filter is_draw (canvas_calls (snd (onResults example_window one_face unmounted_state))) \<noteq>
       draw_pass example_face
   \<and> canvasRef running_state = Some example_canvas
   \<and> fst (onResults half_loaded_window one_face running_state) =
       Throw (JsError ''window.drawLandmarks is not a function'')
   \<and> filter is_draw (canvas_calls (snd (onResults half_loaded_window one_face running_state))) =
       butlast (draw_pass example_face)
   \<and> butlast (draw_pass example_face) \<noteq> draw_pass example_face"
  by (simp add: unmounted_state_eq running_state_eq one_face_def onResults_def canvas_calls_def
      draw_pass_def example_canvas_def example_context_def half_loaded_window_def
      example_window_def draw_face_def and_then_def call_drawConnectors_def
      call_drawLandmarks_def ctx_record_def ctx_save_def ctx_clearRect_def ctx_scale_def
      ctx_translate_def)

text \<open>
  Claim C1, amended: when the canvas is mounted, its 2D context is obtainable, and both
  drawing helpers are defined and return for each face delivered, a landmark result with
  \<open>N \<ge> 1\<close> faces makes \<^verbatim>\<open>onResults\<close> return normally after exactly \<open>N\<close> passes, one for
  each face in the order delivered, each pass being: tesselation at low opacity, right eye,
  left eye, right eyebrow, left eyebrow, face oval, lips, then one landmark-point draw; that
  is \<open>8 * N\<close> draw calls, made between the mirror and \<^verbatim>\<open>restore\<close>.
\<close>

theorem onResults_draws_each_face:
  assumes "canvasRef s = Some cv" and "getContext2d cv = Some ctx"
    and "multiFaceLandmarks res = Some faces" and "faces \<noteq> []"
    and "drawConnectors w = Some dc" and "drawLandmarks w = Some dl"
    and "\<forall>lms\<in>set faces. \<forall>conns style. dc lms conns style = None"
    and "\<forall>lms\<in>set faces. \<forall>style. dl lms style = None"
  shows "fst (onResults w res s) = Normal
         \<and> canvas_calls (snd (onResults w res s)) =
             calls ctx @
             [Save, ClearRect 0 0 (of_nat (width cv)) (of_nat (height cv)), Scale (- 1) 1,
              Translate (- of_nat (width cv)) 0] @
             concat (map draw_pass faces) @ [Restore]
         \<and> filter is_draw (drop (length (calls ctx)) (canvas_calls (snd (onResults w res s)))) =
             concat (map draw_pass faces)
         \<and> length (filter is_draw
               (drop (length (calls ctx)) (canvas_calls (snd (onResults w res s))))) =
             8 * length faces"
proof -
  have normal: "fst (onResults w res s) = Normal"
    using assms(3,5-8) by (rule onResults_returns)
  from onResults_Normal [OF assms(1,2) normal] assms(3) normal show ?thesis
    by (simp add: canvas_calls_def filter_draw_passes length_draw_passes)
qed

theorem onResults_draws_each_face_witness:
  "canvasRef running_state = Some example_canvas
   \<and> getContext2d example_canvas = Some example_context
   \<and> multiFaceLandmarks two_faces = Some [example_face, other_face]
   \<and> fst (onResults example_window two_faces running_state) = Normal
   \<and> canvas_calls (snd (onResults example_window two_faces running_state)) =
       [Save, ClearRect 0 0 640 480, Scale (- 1) 1, Translate (- 640) 0] @
       draw_pass example_face @ draw_pass other_face @ [Restore]
   \<and> length (filter is_draw
         (canvas_calls (snd (onResults example_window two_faces running_state)))) = 16"
  using onResults_draws_each_face
    [of running_state example_canvas example_context two_faces "[example_face, other_face]"
        example_window "\<lambda>lms conns style. None" "\<lambda>lms style. None"]
  by (simp add: running_state_eq example_canvas_def example_context_def two_faces_def
      example_window_def draw_pass_def)

text \<open>
  Claim C2, as stated: every landmark result with no face makes \<^verbatim>\<open>onResults\<close> clear the
  canvas and draw nothing. Without a mounted canvas the call returns at once: no
  \<^verbatim>\<open>clearRect\<close> is issued.
\<close>

theorem onResults_without_canvas_clears_nothing:
  "multiFaceLandmarks no_face = Some []
   \<and> canvasRef unmounted_state = None
   \<and> onResults example_window no_face unmounted_state = (Normal, unmounted_state)
   \<and> canvas_calls (snd (onResults example_window no_face unmounted_state)) = []"
  by (simp add: unmounted_state_eq no_face_def onResults_def canvas_calls_def)

text \<open>
  Claim C2, amended: when the canvas is mounted and its 2D context is obtainable, a landmark
  result whose \<^verbatim>\<open>multiFaceLandmarks\<close> is absent or empty makes \<^verbatim>\<open>onResults\<close> return
  normally, whatever the globals, having touched pixels with exactly one call, the
  \<^verbatim>\<open>clearRect\<close> over the whole canvas, and having made no connector or landmark draw; the
  other calls it makes on the context are \<^verbatim>\<open>save\<close>, the mirror and \<^verbatim>\<open>restore\<close>.
\<close>

theorem onResults_no_face_clears_only:
  assumes "canvasRef s = Some cv" and "getContext2d cv = Some ctx"
    and "multiFaceLandmarks res = None \<or> multiFaceLandmarks res = Some []"
  shows "fst (onResults w res s) = Normal
         \<and> canvas_calls (snd (onResults w res s)) =
             calls ctx @
             [Save, ClearRect 0 0 (of_nat (width cv)) (of_nat (height cv)), Scale (- 1) 1,
              Translate (- of_nat (width cv)) 0, Restore]
         \<and> filter touches_pixels
               (drop (length (calls ctx)) (canvas_calls (snd (onResults w res s)))) =
             [ClearRect 0 0 (of_nat (width cv)) (of_nat (height cv))]
         \<and> filter is_draw (drop (length (calls ctx)) (canvas_calls (snd (onResults w res s)))) =
             []"
proof -
  have normal: "fst (onResults w res s) = Normal"
    using assms(3) by (rule onResults_no_face_Normal)
  from onResults_Normal [OF assms(1,2) normal] assms(3) normal show ?thesis
    by (auto simp: canvas_calls_def)
qed

theorem onResults_no_face_clears_only_witness:
  "canvasRef running_state = Some example_canvas
   \<and> getContext2d example_canvas = Some example_context
   \<and> multiFaceLandmarks no_face = Some []
   \<and> fst (onResults empty_window no_face running_state) = Normal
   \<and> canvas_calls (snd (onResults empty_window no_face running_state)) =
       [Save, ClearRect 0 0 640 480, Scale (- 1) 1, Translate (- 640) 0, Restore]
   \<and> filter touches_pixels (canvas_calls (snd (onResults empty_window no_face running_state))) =
       [ClearRect 0 0 640 480]"
  using onResults_no_face_clears_only
    [of running_state example_canvas example_context no_face empty_window]
  by (simp add: running_state_eq example_canvas_def example_context_def no_face_def)

text \<open>
  Claim C10, as stated: every invocation of \<^verbatim>\<open>onResults\<close> on a valid canvas restores the
  context on exit. With \<^verbatim>\<open>window.drawLandmarks\<close> missing and one face delivered to the
  running session, the call is left by an exception before \<^verbatim>\<open>restore\<close>: the context, which
  had the identity matrix and an empty stack, keeps the mirror matrix and one saved state.
\<close>

theorem onResults_throw_skips_restore:
  "canvas_context running_state = Some example_context
   \<and> transform example_context = (1, 0, 0, 1, 0, 0) \<and> saved example_context = []
   \<and> fst (onResults half_loaded_window one_face running_state) =
       Throw (JsError ''window.drawLandmarks is not a function'')
   \<and> map_option transform
         (canvas_context (snd (onResults half_loaded_window one_face running_state))) =
       Some (- 1, 0, 0, 1, 640, 0)
   \<and> map_option saved
         (canvas_context (snd (onResults half_loaded_window one_face running_state))) =
       Some [(1, 0, 0, 1, 0, 0)]
   \<and> Restore \<notin> set (canvas_calls (snd (onResults half_loaded_window one_face running_state)))"
  by (simp add: running_state_eq one_face_def onResults_def canvas_calls_def canvas_context_def
      example_canvas_def example_context_def half_loaded_window_def
      example_window_def draw_face_def and_then_def call_drawConnectors_def
      call_drawLandmarks_def ctx_record_def ctx_save_def ctx_clearRect_def ctx_scale_def
      ctx_translate_def)

text \<open>
  Claim C10, amended: every invocation of \<^verbatim>\<open>onResults\<close> on a mounted canvas with an
  obtainable 2D context that returns normally (no drawing helper is missing or throws) saves
  the context state on entry, clears the canvas, applies the mirror (\<^verbatim>\<open>scale(-1, 1)\<close>, then
  \<^verbatim>\<open>translate(-width, 0)\<close>), makes its draws and restores the state on exit: the context has
  the matrix and the stack of saved states it had on entry. When the canvas or its context
  is unavailable, the call returns normally and changes nothing.
\<close>

theorem onResults_restores_context:
  "(canvasRef s = Some cv \<and> getContext2d cv = Some ctx \<and> fst (onResults w res s) = Normal
      \<longrightarrow> (\<exists>ctx'. canvasRef (snd (onResults w res s)) = Some (cv\<lparr>getContext2d := Some ctx'\<rparr>)
             \<and> transform ctx' = transform ctx \<and> saved ctx' = saved ctx
             \<and> calls ctx' =
                 calls ctx @
                 [Save, ClearRect 0 0 (of_nat (width cv)) (of_nat (height cv)), Scale (- 1) 1,
                  Translate (- of_nat (width cv)) 0] @
                 (case multiFaceLandmarks res of
                    None \<Rightarrow> []
                  | Some faces \<Rightarrow> concat (map draw_pass faces)) @ [Restore]))
   \<and> (canvasRef s = None \<or> (\<exists>cv. canvasRef s = Some cv \<and> getContext2d cv = None)
      \<longrightarrow> onResults w res s = (Normal, s))"
proof -
  have unavailable:
    "canvasRef s = None \<or> (\<exists>cv. canvasRef s = Some cv \<and> getContext2d cv = None)
      \<longrightarrow> onResults w res s = (Normal, s)"
    by (auto simp: onResults_def)
  have available:
    "canvasRef s = Some cv \<and> getContext2d cv = Some ctx \<and> fst (onResults w res s) = Normal
      \<longrightarrow> (\<exists>ctx'. canvasRef (snd (onResults w res s)) = Some (cv\<lparr>getContext2d := Some ctx'\<rparr>)
             \<and> transform ctx' = transform ctx \<and> saved ctx' = saved ctx
             \<and> calls ctx' =
                 calls ctx @
                 [Save, ClearRect 0 0 (of_nat (width cv)) (of_nat (height cv)), Scale (- 1) 1,
                  Translate (- of_nat (width cv)) 0] @
                 (case multiFaceLandmarks res of
                    None \<Rightarrow> []
                  | Some faces \<Rightarrow> concat (map draw_pass faces)) @ [Restore])"
  proof
    assume a: "canvasRef s = Some cv \<and> getContext2d cv = Some ctx
      \<and> fst (onResults w res s) = Normal"
    then have "onResults w res s =
           (Normal,
            s\<lparr>canvasRef := Some (cv\<lparr>getContext2d := Some
                (ctx\<lparr>calls := calls ctx @
                   [Save, ClearRect 0 0 (of_nat (width cv)) (of_nat (height cv)), Scale (- 1) 1,
                    Translate (- of_nat (width cv)) 0] @
                   (case multiFaceLandmarks res of
                      None \<Rightarrow> []
                    | Some faces \<Rightarrow> concat (map draw_pass faces)) @ [Restore]\<rparr>)\<rparr>)\<rparr>)"
      by (intro onResults_Normal) simp_all
    then show "\<exists>ctx'. canvasRef (snd (onResults w res s)) = Some (cv\<lparr>getContext2d := Some ctx'\<rparr>)
             \<and> transform ctx' = transform ctx \<and> saved ctx' = saved ctx
             \<and> calls ctx' =
                 calls ctx @
                 [Save, ClearRect 0 0 (of_nat (width cv)) (of_nat (height cv)), Scale (- 1) 1,
                  Translate (- of_nat (width cv)) 0] @
                 (case multiFaceLandmarks res of
                    None \<Rightarrow> []
                  | Some faces \<Rightarrow> concat (map draw_pass faces)) @ [Restore]"
      by (intro exI [of _ "ctx\<lparr>calls := calls ctx @
                   [Save, ClearRect 0 0 (of_nat (width cv)) (of_nat (height cv)), Scale (- 1) 1,
                    Translate (- of_nat (width cv)) 0] @
                   (case multiFaceLandmarks res of
                      None \<Rightarrow> []
                    | Some faces \<Rightarrow> concat (map draw_pass faces)) @ [Restore]\<rparr>"]) simp
  qed
  show ?thesis using available unavailable by blast
qed

theorem onResults_restores_context_witness:
  "fst (onResults example_window one_face running_state) = Normal
   \<and> (\<exists>ctx'. canvasRef (snd (onResults example_window one_face running_state)) =
             Some (example_canvas\<lparr>getContext2d := Some ctx'\<rparr>)
          \<and> transform ctx' = (1, 0, 0, 1, 0, 0) \<and> saved ctx' = []
          \<and> calls ctx' =
              [Save, ClearRect 0 0 640 480, Scale (- 1) 1, Translate (- 640) 0] @
              draw_pass example_face @ [Restore])
   \<and> canvasRef unmounted_state = None
   \<and> onResults example_window one_face unmounted_state = (Normal, unmounted_state)
   \<and> getContext2d (example_canvas\<lparr>getContext2d := None\<rparr>) = None
   \<and> onResults example_window one_face
         (running_state\<lparr>canvasRef := Some (example_canvas\<lparr>getContext2d := None\<rparr>)\<rparr>) =
       (Normal, running_state\<lparr>canvasRef := Some (example_canvas\<lparr>getContext2d := None\<rparr>)\<rparr>)"
proof -
  have normal: "fst (onResults example_window one_face running_state) = Normal"
    by (rule onResults_returns [of _ "[example_face]" _ "\<lambda>lms conns style. None"
          "\<lambda>lms style. None"])
       (simp_all add: one_face_def example_window_def)
  from normal
    onResults_restores_context
      [of running_state example_canvas example_context example_window one_face]
    onResults_restores_context
      [of unmounted_state example_canvas example_context example_window one_face]
    onResults_restores_context
      [of "running_state\<lparr>canvasRef := Some (example_canvas\<lparr>getContext2d := None\<rparr>)\<rparr>"
          example_canvas example_context example_window one_face]
  show ?thesis
    by (simp add: running_state_eq unmounted_state_eq example_canvas_def example_context_def
        one_face_def)
qed

section \<open>Availability prober\<close>

lemma poll_last:
  "cdnAvailable (poll (ws @ [w]) s) =
     (FaceMesh w \<noteq> None \<and> Camera w \<noteq> None \<and> drawConnectors w \<noteq> None)"
  by (induction ws arbitrary: s) (simp_all add: checkMediaPipeAvailability_def Let_def)

text \<open>
  Claim C7: after a check the availability flag is true exactly when the detector
  constructor, the camera-loop constructor and the drawing helper are all defined, so it is
  false as soon as one is missing; the check returns the flag it has set; the effect run on
  mounting performs a check and registers the check as an interval callback with a period of
  1000 ms; and after any number of firings the flag reflects the globals seen by the last.
\<close>

theorem availability_flag_tracks_globals:
  "cdnAvailable (snd (checkMediaPipeAvailability w s)) =
     (FaceMesh w \<noteq> None \<and> Camera w \<noteq> None \<and> drawConnectors w \<noteq> None)
   \<and> fst (checkMediaPipeAvailability w s) = cdnAvailable (snd (checkMediaPipeAvailability w s))
   \<and> cdnAvailable (fst (availability_effect w s)) =
       (FaceMesh w \<noteq> None \<and> Camera w \<noteq> None \<and> drawConnectors w \<noteq> None)
   \<and> SetInterval CheckAvailability 1000 \<in> set (snd (availability_effect w s))
   \<and> cdnAvailable (poll (ws @ [w]) s) =
       (FaceMesh w \<noteq> None \<and> Camera w \<noteq> None \<and> drawConnectors w \<noteq> None)"
  by (simp add: poll_last checkMediaPipeAvailability_def availability_effect_def Let_def)

theorem availability_flag_tracks_globals_witness:
  "cdnAvailable (poll [example_window\<lparr>Camera := None\<rparr>, example_window] initial_state)
   \<and> \<not> cdnAvailable (poll [example_window, example_window\<lparr>Camera := None\<rparr>] initial_state)
   \<and> \<not> cdnAvailable
         (fst (availability_effect (example_window\<lparr>drawConnectors := None\<rparr>) initial_state))
   \<and> \<not> cdnAvailable (fst (availability_effect (example_window\<lparr>FaceMesh := None\<rparr>) initial_state))"
  using availability_flag_tracks_globals
      [of example_window initial_state "[example_window\<lparr>Camera := None\<rparr>]"]
    availability_flag_tracks_globals
      [of "example_window\<lparr>Camera := None\<rparr>" initial_state "[example_window]"]
    availability_flag_tracks_globals
      [of "example_window\<lparr>drawConnectors := None\<rparr>" initial_state "[]"]
    availability_flag_tracks_globals
      [of "example_window\<lparr>FaceMesh := None\<rparr>" initial_state "[]"]
  by (simp add: example_window_def)

section \<open>Capture-surface errors\<close>

text \<open>The test on the message text is a test for a substring.\<close>

lemma starts_with_iff: "starts_with p str \<longleftrightarrow> (\<exists>post. str = p @ post)"
  by (induction p str rule: starts_with.induct) auto

lemma includes_str_iff: "includes_str str p \<longleftrightarrow> (\<exists>pre post. str = pre @ p @ post)"
proof (induction str)
  case Nil
  show ?case by (simp add: starts_with_iff)
next
  case (Cons c str)
  show ?case
  proof
    assume "includes_str (c # str) p"
    then consider "starts_with p (c # str)" | "includes_str str p" by auto
    then show "\<exists>pre post. c # str = pre @ p @ post"
    proof cases
      case 1
      then obtain post where "c # str = p @ post" using starts_with_iff by blast
      then have "c # str = [] @ p @ post" by simp
      then show ?thesis by blast
    next
      case 2
      then obtain pre post where "str = pre @ p @ post" using Cons.IH by blast
      then have "c # str = (c # pre) @ p @ post" by simp
      then show ?thesis by blast
    qed
  next
    assume "\<exists>pre post. c # str = pre @ p @ post"
    then obtain pre post where eq: "c # str = pre @ p @ post" by blast
    show "includes_str (c # str) p"
    proof (cases pre)
      case Nil
      with eq have "starts_with p (c # str)" using starts_with_iff by auto
      then show ?thesis by simp
    next
      case (Cons d pre')
      with eq have "str = pre' @ p @ post" by simp
      then have "includes_str str p" using Cons.IH by blast
      then show ?thesis by simp
    qed
  qed
qed

text \<open>
  What the handler does by design: an error whose extracted message contains
  \<^verbatim>\<open>Permission\<close> or \<^verbatim>\<open>permission\<close> puts the component back behind the permission gate,
  whatever the state.
\<close>

lemma handleWebcamError_permission_text:
  assumes "webcam_error_message error = pre @ ''Permission'' @ post
           \<or> webcam_error_message error = pre @ ''permission'' @ post"
  shows "showPermissionRequest (handleWebcamError error s)
         \<and> lastError (handleWebcamError error s) = Some (webcam_error_message error)
         \<and> isLoading (handleWebcamError error s) = False"
proof -
  have "is_permission_message (webcam_error_message error)"
    unfolding is_permission_message_def includes_str_iff using assms by blast
  then show ?thesis by (simp add: handleWebcamError_def Let_def)
qed

text \<open>
  Claim C5: every permission-denied webcam error puts the component back behind the
  permission gate. The code falls short of it: it recognises a permission error by the words
  \<^verbatim>\<open>Permission\<close> or \<^verbatim>\<open>permission\<close> in the message, not by what the error is. A
  \<^verbatim>\<open>NotAllowedError\<close> whose text has neither word, received while the camera is being
  requested, leaves the gate hidden and shows the error instead; the same error with the
  text \<open>Permission denied\<close> brings the gate back.
\<close>

theorem handleWebcamError_misses_permission_denied:
  "is_permission_denied denied_without_permission_text
   \<and> \<not> showPermissionRequest requesting_state
   \<and> \<not> showPermissionRequest (handleWebcamError denied_without_permission_text requesting_state)
   \<and> lastError (handleWebcamError denied_without_permission_text requesting_state) =
       Some ''The request is not allowed by the user agent or the platform in the current context.''
   \<and> is_permission_denied denied_with_permission_text
   \<and> showPermissionRequest (handleWebcamError denied_with_permission_text requesting_state)"
  by (simp add: denied_without_permission_text_def denied_with_permission_text_def
      requesting_state_eq handleWebcamError_def is_permission_message_def emit_def)

section \<open>Frames\<close>

text \<open>
  Claim C3: when the per-frame \<^verbatim>\<open>send\<close> throws, \<^verbatim>\<open>onFrame\<close> changes nothing but the
  trace, which gains the call and one \<^verbatim>\<open>console.error\<close> entry carrying the failure: the
  running flag, the last error and the permission gate are as before, so a running session
  stays running and no error state is entered.
\<close>

theorem onFrame_send_failure_logged_only:
  assumes "faceMeshRef s = Some fm" and "webcamRef s = Some wc" and "video wc = Some v"
    and "fm_send fm = Some e"
  shows "onFrame s =
           s\<lparr>trace := trace s @
               [FaceMeshSend v, ConsoleError ''Error sending frame to facemesh:'' e]\<rparr>
         \<and> isRunning (onFrame s) = isRunning s
         \<and> lastError (onFrame s) = lastError s
         \<and> showPermissionRequest (onFrame s) = showPermissionRequest s"
  using assms by (simp add: onFrame_def call_def emit_def)

theorem onFrame_send_failure_logged_only_witness:
  "isRunning send_failing_state
   \<and> isRunning (onFrame send_failing_state)
   \<and> lastError (onFrame send_failing_state) = None
   \<and> trace (onFrame send_failing_state) =
       started_trace @
       [FaceMeshSend 0, ConsoleError ''Error sending frame to facemesh:'' (JsError ''send failed'')]"
  using onFrame_send_failure_logged_only
      [of send_failing_state failing_faceMesh "\<lparr>video = Some 0\<rparr>" 0 "JsError ''send failed''"]
  by (simp add: send_failing_state_eq failing_faceMesh_def example_faceMesh_def)

section \<open>Failed starts\<close>

text \<open>
  Claim C4, as stated: a failing start, and a failing frame-send, put the failure message in
  \<open>lastError\<close>. In the running session whose detector throws \<open>send failed\<close>, \<open>lastError\<close> is
  still empty after the frame. And when \<^verbatim>\<open>start()\<close> throws \<^verbatim>\<open>undefined\<close>, or its promise
  is rejected with \<^verbatim>\<open>undefined\<close>, the handler itself fails on reading \<^verbatim>\<open>error.message\<close>:
  \<open>lastError\<close> stays empty (and after the synchronous throw the loading flag stays set).
\<close>

theorem failure_without_lastError:
  "faceMeshRef send_failing_state = Some failing_faceMesh
   \<and> fm_send failing_faceMesh = Some (JsError ''send failed'')
   \<and> lastError (onFrame send_failing_state) \<noteq> Some ''send failed''
   \<and> lastError (onFrame send_failing_state) = None
   \<and> fst (startFaceMesh_try (example_window\<lparr>Camera := Some (Inr unstartable_camera)\<rparr>) 0
         mounted_state) = Throw JsUndefined
   \<and> fst (startFaceMesh (example_window\<lparr>Camera := Some (Inr unstartable_camera)\<rparr>)
         mounted_state) =
       Throw (JsError ''Cannot read properties of undefined (reading message)'')
   \<and> lastError (snd (startFaceMesh (example_window\<lparr>Camera := Some (Inr unstartable_camera)\<rparr>)
         mounted_state)) = None
   \<and> isLoading (snd (startFaceMesh (example_window\<lparr>Camera := Some (Inr unstartable_camera)\<rparr>)
         mounted_state))
   \<and> lastError (snd (cameraStartSettled (Rejected JsUndefined)
         (snd (start_effect example_window mounted_state)))) = None"
  by (simp add: send_failing_state_eq mounted_state_eq failing_faceMesh_def example_faceMesh_def
      example_window_def unstartable_camera_def example_camera_def onFrame_def start_defs)

text \<open>
  Claim C4, amended: whenever a start attempt fails with a value other than \<^verbatim>\<open>undefined\<close>
  or \<^verbatim>\<open>null\<close>, \<open>lastError\<close> is set to the failure's message, or to a fixed default text
  when the value has no message or an empty one, and loading ends. This holds when a
  statement of the \<^verbatim>\<open>try\<close> block throws (default \<open>Failed to initialize face mesh\<close>) and
  when the promise of \<^verbatim>\<open>start()\<close> rejects (default \<open>Failed to start camera\<close>). A failing
  frame-send leaves \<open>lastError\<close> as it was.
\<close>

theorem start_failure_sets_lastError:
  "(webcamRef s = Some wc \<and> video wc = Some v \<and> canvasRef s \<noteq> None \<and> \<not> isRunning s
      \<and> fst (startFaceMesh_try w v s) = Throw e \<and> e \<noteq> JsUndefined \<and> e \<noteq> JsNull
    \<longrightarrow> fst (startFaceMesh w s) = Normal
        \<and> (\<exists>m. message_or e ''Failed to initialize face mesh'' = Inr m
               \<and> lastError (snd (startFaceMesh w s)) = Some m)
        \<and> isLoading (snd (startFaceMesh w s)) = False)
   \<and> (e \<noteq> JsUndefined \<and> e \<noteq> JsNull
    \<longrightarrow> fst (cameraStartSettled (Rejected e) s) = Normal
        \<and> (\<exists>m. message_or e ''Failed to start camera'' = Inr m
               \<and> lastError (snd (cameraStartSettled (Rejected e) s)) = Some m)
        \<and> isLoading (snd (cameraStartSettled (Rejected e) s)) = False)
   \<and> (message e = Inr (Some m) \<and> m \<noteq> [] \<longrightarrow> message_or e dflt = Inr m)
   \<and> (message e = Inr None \<or> message e = Inr (Some []) \<longrightarrow> message_or e dflt = Inr dflt)
   \<and> (faceMeshRef s = Some fm \<and> fm_send fm = Some e \<longrightarrow> lastError (onFrame s) = lastError s)"
proof -
  have has_text: "\<exists>m. message_or e dflt' = Inr m" if "e \<noteq> JsUndefined" "e \<noteq> JsNull" for dflt'
    using that by (cases e) (simp_all add: message_or_def)
  have sync: "webcamRef s = Some wc \<and> video wc = Some v \<and> canvasRef s \<noteq> None \<and> \<not> isRunning s
      \<and> fst (startFaceMesh_try w v s) = Throw e \<and> e \<noteq> JsUndefined \<and> e \<noteq> JsNull
    \<longrightarrow> fst (startFaceMesh w s) = Normal
        \<and> (\<exists>m. message_or e ''Failed to initialize face mesh'' = Inr m
               \<and> lastError (snd (startFaceMesh w s)) = Some m)
        \<and> isLoading (snd (startFaceMesh w s)) = False"
  proof
    assume a: "webcamRef s = Some wc \<and> video wc = Some v \<and> canvasRef s \<noteq> None \<and> \<not> isRunning s
      \<and> fst (startFaceMesh_try w v s) = Throw e \<and> e \<noteq> JsUndefined \<and> e \<noteq> JsNull"
    then obtain m where m: "message_or e ''Failed to initialize face mesh'' = Inr m"
      using has_text by blast
    obtain s' where "startFaceMesh_try w v s = (Throw e, s')"
      using a by (cases "startFaceMesh_try w v s") auto
    with a m show "fst (startFaceMesh w s) = Normal
        \<and> (\<exists>m. message_or e ''Failed to initialize face mesh'' = Inr m
               \<and> lastError (snd (startFaceMesh w s)) = Some m)
        \<and> isLoading (snd (startFaceMesh w s)) = False"
      by (auto simp: startFaceMesh_def Let_def)
  qed
  have async: "e \<noteq> JsUndefined \<and> e \<noteq> JsNull
    \<longrightarrow> fst (cameraStartSettled (Rejected e) s) = Normal
        \<and> (\<exists>m. message_or e ''Failed to start camera'' = Inr m
               \<and> lastError (snd (cameraStartSettled (Rejected e) s)) = Some m)
        \<and> isLoading (snd (cameraStartSettled (Rejected e) s)) = False"
  proof
    assume a: "e \<noteq> JsUndefined \<and> e \<noteq> JsNull"
    then obtain m where "message_or e ''Failed to start camera'' = Inr m"
      using has_text by blast
    then show "fst (cameraStartSettled (Rejected e) s) = Normal
        \<and> (\<exists>m. message_or e ''Failed to start camera'' = Inr m
               \<and> lastError (snd (cameraStartSettled (Rejected e) s)) = Some m)
        \<and> isLoading (snd (cameraStartSettled (Rejected e) s)) = False"
      by (simp add: cameraStartSettled_def Let_def)
  qed
  have texts: "(message e = Inr (Some m) \<and> m \<noteq> [] \<longrightarrow> message_or e dflt = Inr m)
      \<and> (message e = Inr None \<or> message e = Inr (Some []) \<longrightarrow> message_or e dflt = Inr dflt)"
    by (auto simp: message_or_def)
  have frame: "faceMeshRef s = Some fm \<and> fm_send fm = Some e
      \<longrightarrow> lastError (onFrame s) = lastError s"
    by (auto simp: onFrame_def call_def emit_def split: option.splits)
  show ?thesis using sync async texts frame by blast
qed

theorem start_failure_sets_lastError_witness:
  "fst (startFaceMesh_try (example_window\<lparr>Camera := None\<rparr>) 0 mounted_state) =
     Throw (JsError ''window.Camera is not a constructor'')
   \<and> startFaceMesh (example_window\<lparr>Camera := None\<rparr>) mounted_state =
       (Normal, snd (startFaceMesh (example_window\<lparr>Camera := None\<rparr>) mounted_state))
   \<and> lastError (snd (startFaceMesh (example_window\<lparr>Camera := None\<rparr>) mounted_state)) =
       Some ''window.Camera is not a constructor''
   \<and> lastError (snd (cameraStartSettled
        (Rejected (DOMException ''NotReadableError'' ''Could not start video source''))
        mounted_state)) = Some ''Could not start video source''
   \<and> lastError (snd (cameraStartSettled (Rejected JsOther) mounted_state)) =
       Some ''Failed to start camera''
   \<and> fm_send failing_faceMesh = Some (JsError ''send failed'')
   \<and> lastError (onFrame send_failing_state) = lastError send_failing_state"
  using start_failure_sets_lastError
      [of mounted_state "\<lparr>video = Some 0\<rparr>" 0 "example_window\<lparr>Camera := None\<rparr>"
          "JsError ''window.Camera is not a constructor''"
          "''window.Camera is not a constructor''" "''Failed to initialize face mesh''"
          example_faceMesh]
    start_failure_sets_lastError
      [of mounted_state "\<lparr>video = Some 0\<rparr>" 0 example_window
          "DOMException ''NotReadableError'' ''Could not start video source''"
          "''Could not start video source''" "''Failed to start camera''" example_faceMesh]
    start_failure_sets_lastError
      [of mounted_state "\<lparr>video = Some 0\<rparr>" 0 example_window JsOther "''x''"
          "''Failed to start camera''" example_faceMesh]
    start_failure_sets_lastError
      [of send_failing_state "\<lparr>video = Some 0\<rparr>" 0 example_window "JsError ''send failed''"
          "''send failed''" "''y''" failing_faceMesh]
  by (simp add: mounted_state_eq send_failing_state_eq example_window_def example_faceMesh_def
      failing_faceMesh_def example_canvas_def start_defs)

section \<open>Stopping\<close>

lemma stopFaceMesh_normal: "fst (stopFaceMesh s) = Normal"
  by (simp add: stopFaceMesh_def split: prod.splits completion.splits)

lemma stop_repeatedly_normal: "fst (stop_repeatedly n s) = Normal"
proof (induction n arbitrary: s)
  case 0
  show ?case by simp
next
  case (Suc n)
  obtain s' where "stopFaceMesh s = (Normal, s')"
    using stopFaceMesh_normal [of s] by (cases "stopFaceMesh s") simp
  then show ?case using Suc by (simp add: and_then_def)
qed

text \<open>
  Claim C6, as stated: failures of the underlying calls are swallowed, so teardown always
  completes. In the running session whose camera loop throws on \<^verbatim>\<open>stop()\<close>, the call
  returns normally, but the detector is never closed and the running flag is still set.
\<close>

theorem stopFaceMesh_abandons_teardown:
  "isRunning stop_failing_state
   \<and> cameraRef stop_failing_state = Some failing_camera
   \<and> cam_stop failing_camera = Some (JsError ''stop failed'')
   \<and> faceMeshRef stop_failing_state = Some example_faceMesh
   \<and> fst (stopFaceMesh stop_failing_state) = Normal
   \<and> isRunning (snd (stopFaceMesh stop_failing_state))
   \<and> FaceMeshClose \<notin> set (trace (snd (stopFaceMesh stop_failing_state)))
   \<and> trace (snd (stopFaceMesh stop_failing_state)) =
       started_trace @
       [CameraStop, ConsoleError ''Error stopping face mesh:'' (JsError ''stop failed'')]"
  by (simp add: stop_failing_state_eq failing_camera_def example_camera_def
      example_faceMesh_def started_trace_def stopFaceMesh_def stopFaceMesh_try_def
      and_then_def call_def emit_def)

text \<open>
  Claim C6, amended: \<^verbatim>\<open>stopFaceMesh\<close> never passes an error on to its caller: it completes
  normally in every state, and so does any number of calls in a row. With neither a camera
  loop nor a detector it only clears the running flag: nothing is called and nothing is
  logged. A failure of \<^verbatim>\<open>stop()\<close> or of \<^verbatim>\<open>close()\<close> is logged. Teardown completes, that
  is \<^verbatim>\<open>stop()\<close> is called on the camera loop held, then \<^verbatim>\<open>close()\<close> on the detector held,
  and the running flag is cleared, whenever the calls made return normally.
\<close>

theorem stopFaceMesh_never_throws:
  "fst (stopFaceMesh s) = Normal
   \<and> fst (stop_repeatedly n s) = Normal
   \<and> (cameraRef s = None \<and> faceMeshRef s = None
        \<longrightarrow> stopFaceMesh s = (Normal, s\<lparr>isRunning := False\<rparr>))
   \<and> ((\<forall>cam. cameraRef s = Some cam \<longrightarrow> cam_stop cam = None)
        \<and> (\<forall>fm. faceMeshRef s = Some fm \<longrightarrow> fm_close fm = None)
        \<longrightarrow> stopFaceMesh s =
              (Normal,
               s\<lparr>isRunning := False,
                 trace := trace s @
                   (case cameraRef s of None \<Rightarrow> [] | Some cam \<Rightarrow> [CameraStop]) @
                   (case faceMeshRef s of None \<Rightarrow> [] | Some fm \<Rightarrow> [FaceMeshClose])\<rparr>))
   \<and> (cameraRef s = Some cam \<and> cam_stop cam = Some e
        \<longrightarrow> ConsoleError ''Error stopping face mesh:'' e \<in> set (trace (snd (stopFaceMesh s))))
   \<and> ((\<forall>cam. cameraRef s = Some cam \<longrightarrow> cam_stop cam = None)
        \<and> faceMeshRef s = Some fm \<and> fm_close fm = Some e
        \<longrightarrow> ConsoleError ''Error stopping face mesh:'' e \<in> set (trace (snd (stopFaceMesh s))))"
proof -
  have idle: "cameraRef s = None \<and> faceMeshRef s = None
        \<longrightarrow> stopFaceMesh s = (Normal, s\<lparr>isRunning := False\<rparr>)"
    by (simp add: stopFaceMesh_def stopFaceMesh_try_def and_then_def)
  have complete: "(\<forall>cam. cameraRef s = Some cam \<longrightarrow> cam_stop cam = None)
        \<and> (\<forall>fm. faceMeshRef s = Some fm \<longrightarrow> fm_close fm = None)
        \<longrightarrow> stopFaceMesh s =
              (Normal,
               s\<lparr>isRunning := False,
                 trace := trace s @
                   (case cameraRef s of None \<Rightarrow> [] | Some cam \<Rightarrow> [CameraStop]) @
                   (case faceMeshRef s of None \<Rightarrow> [] | Some fm \<Rightarrow> [FaceMeshClose])\<rparr>)"
    by (cases "cameraRef s"; cases "faceMeshRef s")
       (simp_all add: stopFaceMesh_def stopFaceMesh_try_def and_then_def call_def emit_def)
  have stop_logged: "cameraRef s = Some cam \<and> cam_stop cam = Some e
        \<longrightarrow> ConsoleError ''Error stopping face mesh:'' e \<in> set (trace (snd (stopFaceMesh s)))"
    by (simp add: stopFaceMesh_def stopFaceMesh_try_def and_then_def call_def emit_def)
  have close_logged: "(\<forall>cam. cameraRef s = Some cam \<longrightarrow> cam_stop cam = None)
        \<and> faceMeshRef s = Some fm \<and> fm_close fm = Some e
        \<longrightarrow> ConsoleError ''Error stopping face mesh:'' e \<in> set (trace (snd (stopFaceMesh s)))"
    by (cases "cameraRef s")
       (simp_all add: stopFaceMesh_def stopFaceMesh_try_def and_then_def call_def emit_def)
  show ?thesis
    using idle complete stop_logged close_logged stopFaceMesh_normal [of s]
      stop_repeatedly_normal [of n s]
    by blast
qed

theorem stopFaceMesh_never_throws_witness:
  "cameraRef initial_state = None \<and> faceMeshRef initial_state = None
   \<and> stopFaceMesh initial_state = (Normal, initial_state)
   \<and> fst (stop_repeatedly 3 initial_state) = Normal
   \<and> cameraRef running_state = Some example_camera \<and> cam_stop example_camera = None
   \<and> faceMeshRef running_state = Some example_faceMesh \<and> fm_close example_faceMesh = None
   \<and> stopFaceMesh running_state =
       (Normal, running_state\<lparr>isRunning := False,
          trace := started_trace @ [CameraStop, FaceMeshClose]\<rparr>)
   \<and> cameraRef stop_failing_state = Some failing_camera
   \<and> cam_stop failing_camera = Some (JsError ''stop failed'')
   \<and> fst (stopFaceMesh stop_failing_state) = Normal
   \<and> ConsoleError ''Error stopping face mesh:'' (JsError ''stop failed'')
       \<in> set (trace (snd (stopFaceMesh stop_failing_state)))
   \<and> fm_close (example_faceMesh\<lparr>fm_close := Some JsNull\<rparr>) = Some JsNull
   \<and> ConsoleError ''Error stopping face mesh:'' JsNull
       \<in> set (trace (snd (stopFaceMesh
            (running_state\<lparr>faceMeshRef := Some (example_faceMesh\<lparr>fm_close := Some JsNull\<rparr>)\<rparr>))))"
  using stopFaceMesh_never_throws
      [of initial_state 3 failing_camera "JsError ''stop failed''" example_faceMesh]
    stopFaceMesh_never_throws
      [of running_state 3 failing_camera "JsError ''stop failed''" example_faceMesh]
    stopFaceMesh_never_throws
      [of stop_failing_state 3 failing_camera "JsError ''stop failed''" example_faceMesh]
    stopFaceMesh_never_throws
      [of "running_state\<lparr>faceMeshRef := Some (example_faceMesh\<lparr>fm_close := Some JsNull\<rparr>)\<rparr>" 3
          failing_camera JsNull "example_faceMesh\<lparr>fm_close := Some JsNull\<rparr>"]
  by (simp add: initial_state_def running_state_eq stop_failing_state_eq failing_camera_def
      example_camera_def example_faceMesh_def)

section \<open>Starting\<close>



















end
